theory Spec2Isabelle
  imports Complex_Main "HOL-Library.Multiset" "HOL-Library.Char_ord" "HOL-Library.List_Lexorder"
    "HOL-Library.Product_Lexorder"
begin

section \<open>Values, errors and library conventions\<close>

text \<open>
  The module \<^verbatim>\<open>database_utils.py\<close> is a sequence of table transformations written with
  pandas, numpy and scipy. The embedding keeps the following conventions.

  \<^item> A Python exception is a value of \<open>pyerr\<close>; a function that can raise returns
    \<open>pyerr + 'a\<close> with \<open>Inl\<close> for the exception.
  \<^item> A floating point number is a rational, and \<open>None\<close> stands for NaN, the marker pandas
    uses for a missing value: \<open>fl = rat option\<close>. Rounding is not modelled.
  \<^item> A cell of an untyped column is \<open>Null\<close> (NaN), a number or a text.
  \<^item> A text is a list of characters; slicing and length count characters.
\<close>

datatype pyerr = KeyError | ValueError | TypeError | UnboundLocalError

type_synonym fl = "rat option"

datatype cell = Null | Num rat | Txt string

text \<open>
  Every stage but the analyzer wraps its body in
  \<^verbatim>\<open>try: ... except Exception as e: raise print("..." + str(e))\<close>.
  \<^verbatim>\<open>print\<close> writes the message and returns \<^verbatim>\<open>None\<close>, and raising \<^verbatim>\<open>None\<close> is a \<^verbatim>\<open>TypeError\<close>:
  whatever the body raised, the caller sees a \<^verbatim>\<open>TypeError\<close>.
\<close>

definition raise_print :: "pyerr + 'a \<Rightarrow> pyerr + 'a" where
  "raise_print r = (case r of Inl e \<Rightarrow> Inl TypeError | Inr x \<Rightarrow> Inr x)"

text \<open>The comparison \<^verbatim>\<open>p > alpha\<close> on floats: false as soon as one side is NaN.\<close>

definition fl_gt :: "fl \<Rightarrow> fl \<Rightarrow> bool" where
  "fl_gt p alpha = (case p of None \<Rightarrow> False
                    | Some x \<Rightarrow> (case alpha of None \<Rightarrow> False | Some y \<Rightarrow> y < x))"

text \<open>The slice \<^verbatim>\<open>s[:stop]\<close>: a negative stop counts from the end, and both ends are clamped.\<close>

definition py_slice_stop :: "int \<Rightarrow> 'a list \<Rightarrow> 'a list" where
  "py_slice_stop stop s =
     (let n = int (length s);
          e = (if stop < 0 then max (stop + n) 0 else min stop n)
      in take (nat e) s)"

section \<open>Cleaner: \<^verbatim>\<open>PrepareIdeb\<close>\<close>

text \<open>
  A raw table is a list of named columns, in order. The spreadsheet parser gives every
  column a name of its own (a repeated header is renamed), and all columns have one length;
  \<open>wf_frame\<close> says so. With a name used twice pandas returns a table where the code expects
  a column, so the operations below are the code's on tables with distinct names.
\<close>

type_synonym column = "cell list"
type_synonym frame = "(string \<times> column) list"


text \<open>The four headers of the sheet; the letter o with acute accent and the line feed are
  written by their codes.\<close>

definition Codigo_da_Escola :: string where
  "Codigo_da_Escola = ''C'' @ [CHR 0xF3] @ ''digo da Escola''"

definition Unnamed_12 :: string where
  "Unnamed_12 = ''Unnamed: 12''"

definition Unnamed_15 :: string where
  "Unnamed_15 = ''Unnamed: 15''"

definition IDEB_2017_N_x_P :: string where
  "IDEB_2017_N_x_P = ''IDEB'' @ [CHR 0x0A] @ ''2017'' @ [CHR 0x0A] @ ''(N x P)''"

definition raw_columns :: "string list" where
  "raw_columns = [Codigo_da_Escola, Unnamed_12, Unnamed_15, IDEB_2017_N_x_P]"

definition renaming :: "(string \<times> string) list" where
  "renaming = [(Codigo_da_Escola, ''CO_ESCOLA''), (Unnamed_12, ''IN_RENDIMENTO''),
               (Unnamed_15, ''NT_PADRONIZADA''), (IDEB_2017_N_x_P, ''IDEB'')]"

text \<open>\<^verbatim>\<open>df[[n1, ..., nk]]\<close>: the columns of these names in the order asked for; a name the
  table does not have is a \<^verbatim>\<open>KeyError\<close>.\<close>

definition getitem_list :: "frame \<Rightarrow> string list \<Rightarrow> pyerr + frame" where
  "getitem_list df names =
     (if list_ex (\<lambda>n. n \<notin> fst ` set df) names then Inl KeyError
      else Inr (concat (map (\<lambda>n. filter (\<lambda>c. fst c = n) df) names)))"

text \<open>\<^verbatim>\<open>df.rename(columns=m)\<close>: names outside the mapping stay.\<close>

definition rename :: "(string \<times> string) list \<Rightarrow> frame \<Rightarrow> frame" where
  "rename m df = map (\<lambda>c. (case map_of m (fst c) of None \<Rightarrow> fst c | Some n \<Rightarrow> n, snd c)) df"

text \<open>\<^verbatim>\<open>df[name]\<close>: one column.\<close>

definition getitem :: "frame \<Rightarrow> string \<Rightarrow> pyerr + column" where
  "getitem df n = (case map_of df n of None \<Rightarrow> Inl KeyError | Some c \<Rightarrow> Inr c)"

definition notna :: "cell \<Rightarrow> bool" where
  "notna v = (v \<noteq> Null)"

text \<open>\<^verbatim>\<open>df[mask]\<close>: the rows at which the mask holds, in every column.\<close>

definition filter_rows :: "bool list \<Rightarrow> frame \<Rightarrow> frame" where
  "filter_rows keep df = map (\<lambda>c. (fst c, map snd (filter fst (zip keep (snd c))))) df"

text \<open>\<^verbatim>\<open>df[[name]] = f(df[[name]])\<close> and \<^verbatim>\<open>df[name] = f(df[name])\<close> on a column the table has:
  the column changes in place.\<close>

definition setitem :: "string \<Rightarrow> (column \<Rightarrow> column) \<Rightarrow> frame \<Rightarrow> frame" where
  "setitem n f df = map (\<lambda>c. if fst c = n then (fst c, f (snd c)) else c) df"

text \<open>\<^verbatim>\<open>.replace({'-': np.nan})\<close>: a cell that is the text \<^verbatim>\<open>-\<close> becomes NaN.\<close>

definition replace_sentinel :: "column \<Rightarrow> column" where
  "replace_sentinel col = map (\<lambda>v. if v = Txt ''-'' then Null else v) col"

text \<open>\<^verbatim>\<open>.astype(str)\<close> on a cell. How Python prints a float is a parameter, \<open>float_repr\<close>: the
  text of a school code read as the number 35000012 is \<^verbatim>\<open>35000012.0\<close>.\<close>

definition astype_str :: "(rat \<Rightarrow> string) \<Rightarrow> cell \<Rightarrow> string" where
  "astype_str float_repr v = (case v of Null \<Rightarrow> ''nan'' | Num x \<Rightarrow> float_repr x | Txt s \<Rightarrow> s)"

text \<open>Line 51, on one cell: \<^verbatim>\<open>.astype(str).str[:-2].astype(object)\<close>.\<close>

definition CO_ESCOLA_rewrite :: "(rat \<Rightarrow> string) \<Rightarrow> cell \<Rightarrow> string" where
  "CO_ESCOLA_rewrite float_repr v = py_slice_stop (- 2) (astype_str float_repr v)"

definition PrepareIdeb_body :: "(rat \<Rightarrow> string) \<Rightarrow> frame \<Rightarrow> pyerr + frame" where
  "PrepareIdeb_body float_repr df =
     (case getitem_list df raw_columns of
        Inl e \<Rightarrow> Inl e
      | Inr sel \<Rightarrow>
          (let ideb = rename renaming sel in
           case getitem ideb ''CO_ESCOLA'' of
             Inl e \<Rightarrow> Inl e
           | Inr keys \<Rightarrow>
               (let ideb = filter_rows (map notna keys) ideb;
                    ideb = setitem ''IDEB'' replace_sentinel ideb;
                    ideb = setitem ''IN_RENDIMENTO'' replace_sentinel ideb;
                    ideb = setitem ''NT_PADRONIZADA'' replace_sentinel ideb;
                    ideb = setitem ''CO_ESCOLA''
                             (map (\<lambda>v. Txt (CO_ESCOLA_rewrite float_repr v))) ideb
                in Inr ideb)))"

definition PrepareIdeb :: "(rat \<Rightarrow> string) \<Rightarrow> frame \<Rightarrow> pyerr + frame" where
  "PrepareIdeb float_repr df = raise_print (PrepareIdeb_body float_repr df)"

section \<open>Properties of the cleaner\<close>

lemma py_slice_stop_neg2: "py_slice_stop (- 2) s = take (length s - 2) s"
proof -
  have "nat (max (- 2 + int (length s)) 0) = length s - 2"
    by linarith
  then show ?thesis
    by (simp add: py_slice_stop_def Let_def)
qed

text \<open>
  Claim C10. The rewrite of the key identifier is total: on a key whose text has \<open>n\<close>
  characters it returns the first \<open>max (n - 2) 0\<close> characters, so a text of two characters
  or fewer gives the empty text, and no case of the rewrite raises.
\<close>

theorem CO_ESCOLA_rewrite_total:
  "CO_ESCOLA_rewrite float_repr v =
     take (nat (max (int (length (astype_str float_repr v)) - 2) 0)) (astype_str float_repr v)
   \<and> int (length (CO_ESCOLA_rewrite float_repr v)) =
       max (int (length (astype_str float_repr v)) - 2) 0
   \<and> (length (astype_str float_repr v) \<le> 2 \<longrightarrow> CO_ESCOLA_rewrite float_repr v = [])"
proof -
  let ?s = "astype_str float_repr v"
  have n: "nat (max (int (length ?s) - 2) 0) = length ?s - 2"
    by linarith
  have r: "CO_ESCOLA_rewrite float_repr v = take (length ?s - 2) ?s"
    by (simp add: CO_ESCOLA_rewrite_def py_slice_stop_neg2)
  have "length (take (length ?s - 2) ?s) = length ?s - 2"
    by simp
  then have l: "int (length (take (length ?s - 2) ?s)) = max (int (length ?s) - 2) 0"
    by linarith
  have e: "length ?s \<le> 2 \<longrightarrow> take (length ?s - 2) ?s = []"
    by simp
  show ?thesis
    unfolding n r using l e by blast
qed

theorem CO_ESCOLA_rewrite_total_witness:
  "CO_ESCOLA_rewrite (\<lambda>x. ''35000012.0'') (Num 35000012) = ''35000012''
   \<and> CO_ESCOLA_rewrite (\<lambda>x. ''35000012.0'') (Txt ''7'') = []
   \<and> CO_ESCOLA_rewrite (\<lambda>x. ''35000012.0'') (Txt []) = []"
  using CO_ESCOLA_rewrite_total [of "\<lambda>x. ''35000012.0''" "Num 35000012"]
    CO_ESCOLA_rewrite_total [of "\<lambda>x. ''35000012.0''" "Txt ''7''"]
    CO_ESCOLA_rewrite_total [of "\<lambda>x. ''35000012.0''" "Txt []"]
  by (simp add: astype_str_def)








text \<open>A sheet of three rows, with a column the cleaner does not ask for: the second row
  has no school code, and each of the three numeric columns holds the sentinel.\<close>

definition raw_example :: frame where
  "raw_example =
     [(''Sigla da UF'', [Txt ''SP'', Txt ''RJ'', Null]),
      (Codigo_da_Escola, [Num 35000012, Null, Txt ''33000001.0'']),
      (Unnamed_12, [Num (9/10), Txt ''-'', Txt ''-'']),
      (Unnamed_15, [Txt ''-'', Num 5, Num 4]),
      (IDEB_2017_N_x_P, [Num 4, Num 3, Txt ''-''])]"


lemma raw_example_run:
  "PrepareIdeb (\<lambda>x. ''35000012.0'') raw_example =
     Inr [(''CO_ESCOLA'', [Txt ''35000012'', Txt ''33000001'']),
          (''IN_RENDIMENTO'', [Num (9/10), Null]),
          (''NT_PADRONIZADA'', [Null, Num 4]),
          (''IDEB'', [Num 4, Null])]"
  by (simp add: PrepareIdeb_def raise_print_def PrepareIdeb_body_def raw_example_def
      raw_columns_def Codigo_da_Escola_def Unnamed_12_def Unnamed_15_def IDEB_2017_N_x_P_def
      getitem_list_def rename_def renaming_def getitem_def filter_rows_def setitem_def
      notna_def replace_sentinel_def CO_ESCOLA_rewrite_def astype_str_def py_slice_stop_def)


section \<open>Analyzer: \<^verbatim>\<open>NormalityTest\<close>\<close>

text \<open>
  The table the sweep receives is a list of columns, each with its name, its dtype and its
  values. The two tests of scipy are parameters: given the values of a column, a test
  returns its statistic and its p-value, or raises (a sample that is too short).
\<close>

datatype dtype = float64 | int64 | other_dtype


record 'v series =
  name :: string
  dtype :: dtype
  vals :: 'v

definition msg_gaussian :: string where
  "msg_gaussian = ''Amostra tem distribui'' @ [CHR 0xE7, CHR 0xE3] @ ''o gaussiana (H0 n''
                    @ [CHR 0xE3] @ ''o foi rejeitada)''"

definition msg_not_gaussian :: string where
  "msg_not_gaussian = ''Amostra n'' @ [CHR 0xE3] @ ''o possui distribui'' @ [CHR 0xE7, CHR 0xE3]
                        @ ''o gaussiana (Rejeita-se H0)''"

text \<open>\<^verbatim>\<open>df.select_dtypes(include = ['float64', 'int64'])\<close>.\<close>

definition select_dtypes :: "'v series list \<Rightarrow> 'v series list" where
  "select_dtypes df = filter (\<lambda>c. dtype c = float64 \<or> dtype c = int64) df"

text \<open>The \<^verbatim>\<open>if p > alpha\<close> of both loops.\<close>

definition verdict :: "fl \<Rightarrow> fl \<Rightarrow> string" where
  "verdict p alpha = (if fl_gt p alpha then msg_gaussian else msg_not_gaussian)"

text \<open>One loop of the sweep, \<^verbatim>\<open>for x in range(input.shape[1])\<close>: the test runs on the columns
  from left to right, and the first exception ends the loop.\<close>

fun sweep :: "('v \<Rightarrow> pyerr + fl \<times> fl) \<Rightarrow> fl \<Rightarrow> 'v series list \<Rightarrow> pyerr + (string \<times> string) list"
  where
  "sweep test alpha [] = Inr []"
| "sweep test alpha (c # cs) =
     (case test (vals c) of
        Inl e \<Rightarrow> Inl e
      | Inr sp \<Rightarrow>
          (case sweep test alpha cs of
             Inl e \<Rightarrow> Inl e
           | Inr out \<Rightarrow> Inr ((name c, verdict (snd sp) alpha) # out)))"

text \<open>\<^verbatim>\<open>output_1.merge(output_2, on='Variavel', how='inner')\<close>: every row of the left table is
  paired with every row of the right table that has its name, in the order of the left.\<close>

definition merge_inner ::
  "(string \<times> string) list \<Rightarrow> (string \<times> string) list \<Rightarrow> (string \<times> string \<times> string) list" where
  "merge_inner output_1 output_2 =
     concat (map (\<lambda>l. map (\<lambda>r. (fst l, snd l, snd r)) (filter (\<lambda>r. fst r = fst l) output_2))
               output_1)"

definition NormalityTest ::
  "('v \<Rightarrow> pyerr + fl \<times> fl) \<Rightarrow> ('v \<Rightarrow> pyerr + fl \<times> fl) \<Rightarrow> 'v series list \<Rightarrow> fl
     \<Rightarrow> pyerr + (string \<times> string \<times> string) list" where
  "NormalityTest shapiro normaltest df alpha =
     (let input = select_dtypes df in
      case sweep shapiro alpha input of
        Inl e \<Rightarrow> Inl e
      | Inr output_1 \<Rightarrow>
          (case sweep normaltest alpha input of
             Inl e \<Rightarrow> Inl e
           | Inr output_2 \<Rightarrow> Inr (merge_inner output_1 output_2)))"

definition alpha_default :: fl where
  "alpha_default = Some (5 / 100)"

lemma msg_distinct: "msg_gaussian \<noteq> msg_not_gaussian"
  by (simp add: msg_gaussian_def msg_not_gaussian_def)

lemma verdict_iff: "verdict p alpha = msg_gaussian \<longleftrightarrow> fl_gt p alpha"
  using msg_distinct by (auto simp: verdict_def)

lemma sweep_all_return:
  "(\<And>c. c \<in> set cs \<Longrightarrow> test (vals c) = Inr (s c, p c)) \<Longrightarrow>
   sweep test alpha cs = Inr (map (\<lambda>c. (name c, verdict (p c) alpha)) cs)"
  by (induction cs) auto

lemma filter_name_map:
  "distinct (map name cs) \<Longrightarrow> c \<in> set cs \<Longrightarrow>
   filter (\<lambda>r. fst r = name c) (map (\<lambda>d. (name d, g d)) cs) = [(name c, g c)]"
proof (induction cs)
  case Nil
  then show ?case by simp
next
  case (Cons a cs)
  show ?case
  proof (cases "c = a")
    case True
    have "filter (\<lambda>r. fst r = name a) (map (\<lambda>d. (name d, g d)) cs) = []"
      using Cons.prems(1) by (auto simp: filter_empty_conv image_iff)
    with True show ?thesis by simp
  next
    case False
    with Cons.prems have c: "c \<in> set cs" and d: "distinct (map name cs)" by auto
    have "name a \<noteq> name c"
      using Cons.prems(1) c by (auto simp: image_iff)
    with Cons.IH [OF d c] show ?thesis by simp
  qed
qed

lemma merge_inner_distinct:
  assumes "distinct (map name cs)"
  shows "merge_inner (map (\<lambda>c. (name c, f c)) cs) (map (\<lambda>c. (name c, g c)) cs)
           = map (\<lambda>c. (name c, f c, g c)) cs"
proof -
  have "map (\<lambda>l. map (\<lambda>r. (fst l, snd l, snd r))
               (filter (\<lambda>r. fst r = fst l) (map (\<lambda>c. (name c, g c)) cs)))
          (map (\<lambda>c. (name c, f c)) cs)
        = map (\<lambda>c. [(name c, f c, g c)]) cs"
    using filter_name_map [OF assms, of _ g] by (simp add: comp_def)
  then have "merge_inner (map (\<lambda>c. (name c, f c)) cs) (map (\<lambda>c. (name c, g c)) cs)
        = concat (map (\<lambda>c. [(name c, f c, g c)]) cs)"
    by (simp only: merge_inner_def)
  also have "\<dots> = map (\<lambda>c. (name c, f c, g c)) cs"
    by (induction cs) auto
  finally show ?thesis .
qed

text \<open>
  Claim C8, amended. When the numeric columns have pairwise distinct names and both tests
  return on each of them, the sweep returns one row for each numeric column, in the order
  of the columns: the name of the column and the verdicts of the two tests on it. A verdict
  is the first message exactly when the p-value of its test is greater than \<open>alpha\<close>, and
  the second message otherwise.
\<close>

theorem NormalityTest_report:
  assumes names: "distinct (map name (select_dtypes df))"
    and sh: "\<And>c. c \<in> set (select_dtypes df) \<Longrightarrow> shapiro (vals c) = Inr (W c, p1 c)"
    and nt: "\<And>c. c \<in> set (select_dtypes df) \<Longrightarrow> normaltest (vals c) = Inr (K2 c, p2 c)"
  shows "NormalityTest shapiro normaltest df alpha =
           Inr (map (\<lambda>c. (name c, verdict (p1 c) alpha, verdict (p2 c) alpha)) (select_dtypes df))
         \<and> (\<forall>c. verdict (p1 c) alpha = msg_gaussian \<longleftrightarrow> fl_gt (p1 c) alpha)
         \<and> (\<forall>c. verdict (p2 c) alpha = msg_gaussian \<longleftrightarrow> fl_gt (p2 c) alpha)
         \<and> (\<forall>c. verdict (p1 c) alpha = msg_not_gaussian \<longleftrightarrow> \<not> fl_gt (p1 c) alpha)
         \<and> (\<forall>c. verdict (p2 c) alpha = msg_not_gaussian \<longleftrightarrow> \<not> fl_gt (p2 c) alpha)"
proof -
  have o1: "sweep shapiro alpha (select_dtypes df)
      = Inr (map (\<lambda>c. (name c, verdict (p1 c) alpha)) (select_dtypes df))"
    using sh by (rule sweep_all_return)
  have o2: "sweep normaltest alpha (select_dtypes df)
      = Inr (map (\<lambda>c. (name c, verdict (p2 c) alpha)) (select_dtypes df))"
    using nt by (rule sweep_all_return)
  have "NormalityTest shapiro normaltest df alpha =
           Inr (map (\<lambda>c. (name c, verdict (p1 c) alpha, verdict (p2 c) alpha)) (select_dtypes df))"
    by (simp add: NormalityTest_def o1 o2 merge_inner_distinct [OF names])
  moreover have "\<And>p. verdict p alpha = msg_not_gaussian \<longleftrightarrow> \<not> fl_gt p alpha"
    using msg_distinct by (auto simp: verdict_def)
  ultimately show ?thesis
    by (simp add: verdict_iff)
qed

text \<open>Two library tests for the examples: the p-value is read off the first value of the
  column, and a column of fewer than three values makes the test raise.\<close>

definition shapiro_example :: "rat list \<Rightarrow> pyerr + fl \<times> fl" where
  "shapiro_example v = (if length v < 3 then Inl ValueError else Inr (Some 1, Some (hd v / 10)))"

definition normaltest_example :: "rat list \<Rightarrow> pyerr + fl \<times> fl" where
  "normaltest_example v = (if length v < 3 then Inl ValueError else Inr (Some 2, Some (last v / 100)))"

definition sweep_example :: "rat list series list" where
  "sweep_example =
     [\<lparr>name = ''NU_IDADE'', dtype = float64, vals = [5, 17, 18]\<rparr>,
      \<lparr>name = ''SG_UF_RESIDENCIA'', dtype = other_dtype, vals = []\<rparr>,
      \<lparr>name = ''Q005'', dtype = int64, vals = [0, 4, 3, 5]\<rparr>]"

definition sweep_duplicate :: "rat list series list" where
  "sweep_duplicate =
     [\<lparr>name = ''x'', dtype = float64, vals = [5, 17, 18]\<rparr>,
      \<lparr>name = ''x'', dtype = float64, vals = [0, 4, 3, 5]\<rparr>]"

theorem NormalityTest_report_witness:
  "distinct (map name (select_dtypes sweep_example))
   \<and> NormalityTest shapiro_example normaltest_example sweep_example alpha_default =
       Inr [(''NU_IDADE'', msg_gaussian, msg_gaussian),
            (''Q005'', msg_not_gaussian, msg_not_gaussian)]"
proof -
  have d: "distinct (map name (select_dtypes sweep_example))"
    by (simp add: select_dtypes_def sweep_example_def)
  have sh: "shapiro_example (vals c) = Inr (Some 1, Some (hd (vals c) / 10))"
    if "c \<in> set (select_dtypes sweep_example)" for c
    using that by (auto simp: select_dtypes_def sweep_example_def shapiro_example_def)
  have nt: "normaltest_example (vals c) = Inr (Some 2, Some (last (vals c) / 100))"
    if "c \<in> set (select_dtypes sweep_example)" for c
    using that by (auto simp: select_dtypes_def sweep_example_def normaltest_example_def)
  show ?thesis
    using NormalityTest_report [of sweep_example shapiro_example "\<lambda>c. Some 1"
        "\<lambda>c. Some (hd (vals c) / 10)" normaltest_example "\<lambda>c. Some 2"
        "\<lambda>c. Some (last (vals c) / 100)" alpha_default, OF d sh nt]
    by (simp add: select_dtypes_def sweep_example_def verdict_def fl_gt_def alpha_default_def)
qed

text \<open>Claim C8, as stated, at a table with two numeric columns of one name: the join on
  the name pairs every row of the first report with every row of the second, and the
  sweep returns four rows for two columns, two of them with the verdicts of different
  columns.\<close>

theorem NormalityTest_duplicate_names:
  "length (select_dtypes sweep_duplicate) = 2
   \<and> NormalityTest shapiro_example normaltest_example sweep_duplicate alpha_default =
       Inr [(''x'', msg_gaussian, msg_gaussian),
            (''x'', msg_gaussian, msg_not_gaussian),
            (''x'', msg_not_gaussian, msg_gaussian),
            (''x'', msg_not_gaussian, msg_not_gaussian)]"
  by (simp add: NormalityTest_def select_dtypes_def sweep_duplicate_def shapiro_example_def
      normaltest_example_def merge_inner_def verdict_def fl_gt_def alpha_default_def)

section \<open>Analyzer: \<^verbatim>\<open>NonParamTest\<close>\<close>

text \<open>
  The table \<^verbatim>\<open>df_ = df[['NU_NOTA_TOT', col]]\<close>, written \<open>df'\<close>, is read row by row: the total score and the
  category of the row, \<open>None\<close> for a null category. A sample is the list of the scores of
  its rows. The two tests of scipy are the constructors of \<open>test_call\<close>, the call the
  dispatch makes; the library itself is a parameter that answers a call with a statistic
  and a p-value, or raises.
\<close>

datatype 't test_call =
    mannwhitneyu "'t list" "'t list"
  | kruskal "'t list list" "string option"

text \<open>\<^verbatim>\<open>Series.nunique()\<close> counts the distinct values that are not null; \<^verbatim>\<open>Series.unique()\<close>
  lists the distinct values in the order of their first row, a null among them.\<close>

definition nunique :: "'c option list \<Rightarrow> nat" where
  "nunique xs = length (remdups (filter (\<lambda>x. x \<noteq> None) xs))"

definition unique :: "'a list \<Rightarrow> 'a list" where
  "unique xs = rev (remdups (rev xs))"

text \<open>\<^verbatim>\<open>df_[df_[col] == cat].drop(col, axis=1)\<close>: NaN is equal to nothing, itself included.\<close>

definition sample_of :: "('t \<times> 'c option) list \<Rightarrow> 'c option \<Rightarrow> 't list" where
  "sample_of df' cat = map fst (filter (\<lambda>r. cat \<noteq> None \<and> snd r = cat) df')"

text \<open>The loop \<^verbatim>\<open>for i in range(k)\<close>.\<close>

definition build_samples :: "('t \<times> 'c option) list \<Rightarrow> 't list list" where
  "build_samples df' =
     map (\<lambda>i. sample_of df' (unique (map snd df') ! i)) [0..<nunique (map snd df')]"

text \<open>The chain \<^verbatim>\<open>if k == 2: ... elif k == 27: ...\<close> of lines 160 to 182; \<open>None\<close> when no branch
  is taken.\<close>

definition select_test :: "nat \<Rightarrow> 't list list \<Rightarrow> 't test_call option" where
  "select_test k samples =
     (if k = 2 then Some (mannwhitneyu (samples ! 0) (samples ! 1))
      else if k = 3 then Some (kruskal [samples ! 0, samples ! 1, samples ! 2] None)
      else if k = 4 then
        Some (kruskal [samples ! 0, samples ! 1, samples ! 2, samples ! 3] None)
      else if k = 5 then
        Some (kruskal [samples ! 0, samples ! 1, samples ! 2, samples ! 3, samples ! 4] None)
      else if k = 6 then
        Some (kruskal [samples ! 0, samples ! 1, samples ! 2, samples ! 3, samples ! 4,
                       samples ! 5] None)
      else if k = 7 then
        Some (kruskal [samples ! 0, samples ! 1, samples ! 2, samples ! 3, samples ! 4,
                       samples ! 5, samples ! 6] None)
      else if k = 8 then
        Some (kruskal [samples ! 0, samples ! 1, samples ! 2, samples ! 3, samples ! 4,
                       samples ! 5, samples ! 6, samples ! 7] None)
      else if k = 17 then
        Some (kruskal [samples ! 0, samples ! 1, samples ! 2, samples ! 3, samples ! 4,
                       samples ! 5, samples ! 6, samples ! 7, samples ! 8, samples ! 9,
                       samples ! 10, samples ! 11, samples ! 12, samples ! 13, samples ! 14,
                       samples ! 15, samples ! 16] (Some ''two-sided''))
      else if k = 27 then
        Some (kruskal [samples ! 0, samples ! 1, samples ! 2, samples ! 3, samples ! 4,
                       samples ! 5, samples ! 6, samples ! 7, samples ! 8, samples ! 9,
                       samples ! 10, samples ! 11, samples ! 12, samples ! 13, samples ! 14,
                       samples ! 15, samples ! 16, samples ! 17, samples ! 18, samples ! 19,
                       samples ! 20, samples ! 21, samples ! 22, samples ! 23, samples ! 24,
                       samples ! 25, samples ! 26] (Some ''two-sided''))
      else None)"

definition msg_same :: string where
  "msg_same = ''Mesma distribui'' @ [CHR 0xE7, CHR 0xE3] @ ''o (H0 n'' @ [CHR 0xE3]
                @ ''o foi rejeitada)''"

definition msg_different :: string where
  "msg_different = ''Distribui'' @ [CHR 0xE7, CHR 0xF5] @ ''es diferentes (Rejeita-se H0)''"

text \<open>
  The function returns nothing; what it prints is its result here, a list of lines, each
  the message, the p-value and the name of the column. When no branch of the chain was
  taken the local variable \<^verbatim>\<open>p\<close> was never assigned, and reading it in \<^verbatim>\<open>if p > alpha\<close> raises
  \<^verbatim>\<open>UnboundLocalError\<close>.
\<close>

definition NonParamTest ::
  "('t test_call \<Rightarrow> pyerr + fl \<times> fl) \<Rightarrow> ('t \<times> 'c option) list \<Rightarrow> string \<Rightarrow> fl
     \<Rightarrow> pyerr + (string \<times> fl \<times> string) list" where
  "NonParamTest scipy df' col alpha =
     (let k = nunique (map snd df');
          samples = build_samples df'
      in case select_test k samples of
           None \<Rightarrow> Inl UnboundLocalError
         | Some call \<Rightarrow>
             (case scipy call of
                Inl e \<Rightarrow> Inl e
              | Inr sp \<Rightarrow>
                  Inr [(if fl_gt (snd sp) alpha then msg_same else msg_different, snd sp, col)]))"

definition supported_k :: "nat list" where
  "supported_k = [2, 3, 4, 5, 6, 7, 8, 17, 27]"

lemma select_test_unsupported: "k \<notin> set supported_k \<Longrightarrow> select_test k samples = None"
  by (simp add: select_test_def supported_k_def)

text \<open>
  Claim C4, amended. For every number of categories outside the nine sizes of the chain
  no test is selected and no verdict is printed; the call does not complete: it raises
  \<^verbatim>\<open>UnboundLocalError\<close> where it reads the p-value.
\<close>

theorem NonParamTest_unsupported_k:
  assumes "nunique (map snd df') \<notin> set supported_k"
  shows "select_test (nunique (map snd df')) (build_samples df') = None
         \<and> NonParamTest scipy df' col alpha = Inl UnboundLocalError"
  using select_test_unsupported [OF assms, of "build_samples df'"]
  by (simp add: NonParamTest_def Let_def)

definition scipy_example :: "rat test_call \<Rightarrow> pyerr + fl \<times> fl" where
  "scipy_example call = Inr (Some 0, Some (1 / 2))"

definition nine_groups :: "(rat \<times> nat option) list" where
  "nine_groups = map (\<lambda>i. (of_nat i, Some (i mod 9))) [0..<18]"

lemma nine_groups_k: "nunique (map snd nine_groups) = 9"
  by (simp add: nine_groups_def nunique_def upt_rec)

lemma nth_literal_17:
  "length s = 17 \<Longrightarrow>
   [s ! 0, s ! 1, s ! 2, s ! 3, s ! 4, s ! 5, s ! 6, s ! 7, s ! 8, s ! 9, s ! 10, s ! 11,
    s ! 12, s ! 13, s ! 14, s ! 15, s ! 16] = s"
  by (auto simp: eval_nat_numeral length_Suc_conv)

lemma nth_literal_27:
  "length s = 27 \<Longrightarrow>
   [s ! 0, s ! 1, s ! 2, s ! 3, s ! 4, s ! 5, s ! 6, s ! 7, s ! 8, s ! 9, s ! 10, s ! 11,
    s ! 12, s ! 13, s ! 14, s ! 15, s ! 16, s ! 17, s ! 18, s ! 19, s ! 20, s ! 21, s ! 22,
    s ! 23, s ! 24, s ! 25, s ! 26] = s"
  by (auto simp: eval_nat_numeral length_Suc_conv)


lemma nth_literal_small:
  "length s = 3 \<Longrightarrow> [s ! 0, s ! 1, s ! 2] = s"
  "length s = 4 \<Longrightarrow> [s ! 0, s ! 1, s ! 2, s ! 3] = s"
  "length s = 5 \<Longrightarrow> [s ! 0, s ! 1, s ! 2, s ! 3, s ! 4] = s"
  "length s = 6 \<Longrightarrow> [s ! 0, s ! 1, s ! 2, s ! 3, s ! 4, s ! 5] = s"
  "length s = 7 \<Longrightarrow> [s ! 0, s ! 1, s ! 2, s ! 3, s ! 4, s ! 5, s ! 6] = s"
  "length s = 8 \<Longrightarrow> [s ! 0, s ! 1, s ! 2, s ! 3, s ! 4, s ! 5, s ! 6, s ! 7] = s"
  by (auto simp: eval_nat_numeral length_Suc_conv)

text \<open>The dispatch on a list of exactly \<open>k\<close> samples: the two-sample test on the two samples
  for \<open>k = 2\<close>, the k-sample test on all the samples for the eight other sizes, with the
  keyword \<^verbatim>\<open>alternative='two-sided'\<close> for 17 and 27 only.\<close>

lemma select_test_enumerated:
  assumes "length samples = k"
  shows "select_test k samples =
     (if k = 2 then Some (mannwhitneyu (samples ! 0) (samples ! 1))
      else if k \<in> {3, 4, 5, 6, 7, 8} then Some (kruskal samples None)
      else if k \<in> {17, 27} then Some (kruskal samples (Some ''two-sided''))
      else None)"
  using assms nth_literal_small [of samples] nth_literal_17 [of samples]
    nth_literal_27 [of samples]
  by (simp add: select_test_def)

lemma length_build_samples: "length (build_samples df') = nunique (map snd df')"
  by (simp add: build_samples_def)

lemma unique_set: "set (unique xs) = set xs" and unique_distinct: "distinct (unique xs)"
  by (simp_all add: unique_def)

lemma nunique_no_null:
  assumes "None \<notin> set xs"
  shows "nunique xs = length (unique xs)"
proof -
  have "\<forall>x\<in>set xs. x \<noteq> None"
    using assms by metis
  then have "filter (\<lambda>x. x \<noteq> None) xs = xs"
    by (rule filter_True)
  then have "nunique xs = card (set xs)"
    by (simp add: nunique_def length_remdups_card_conv)
  also have "\<dots> = length (unique xs)"
    using distinct_card [OF unique_distinct [of xs]] by (simp add: unique_set)
  finally show ?thesis .
qed

lemma mset_groups:
  "distinct cs \<Longrightarrow>
   mset (concat (map (\<lambda>c. filter (\<lambda>r. f r = c) rows) cs)) = mset (filter (\<lambda>r. f r \<in> set cs) rows)"
proof (induction cs)
  case Nil
  then show ?case by simp
next
  case (Cons c cs)
  have "mset (filter (\<lambda>r. f r = c) rows) + mset (filter (\<lambda>r. f r \<in> set cs) rows)
        = mset (filter (\<lambda>r. f r = c \<or> f r \<in> set cs) rows)"
    using Cons.prems by (induction rows) auto
  with Cons show ?case by simp
qed

text \<open>On a column without a null cell the loop builds one sample for each category, and the
  samples split the rows: every row is in exactly one of them.\<close>

lemma build_samples_partition:
  assumes "None \<notin> snd ` set df'"
  shows "build_samples df' = map (sample_of df') (unique (map snd df'))
         \<and> mset (concat (build_samples df')) = mset (map fst df')"
proof -
  let ?u = "unique (map snd df')"
  have k: "nunique (map snd df') = length ?u"
    using assms by (intro nunique_no_null) simp
  have "map (\<lambda>i. sample_of df' (?u ! i)) [0..<length ?u]
      = map (sample_of df') (map ((!) ?u) [0..<length ?u])"
    by (simp only: map_map comp_def)
  then have b: "build_samples df' = map (sample_of df') ?u"
    unfolding build_samples_def k by (simp only: map_nth)
  have nn: "\<And>c. c \<in> set ?u \<Longrightarrow> c \<noteq> None"
    using assms unfolding unique_set by (metis list.set_map)
  have m: "map (sample_of df') ?u = map (\<lambda>c. map fst (filter (\<lambda>r. snd r = c) df')) ?u"
    using nn by (simp add: sample_of_def)
  have c: "concat (map (\<lambda>c. map fst (filter (\<lambda>r. snd r = c) df')) ?u)
      = map fst (concat (map (\<lambda>c. filter (\<lambda>r. snd r = c) df') ?u))"
    by (simp add: map_concat comp_def)
  have "concat (map (sample_of df') ?u)
      = map fst (concat (map (\<lambda>c. filter (\<lambda>r. snd r = c) df') ?u))"
    unfolding m by (rule c)
  then have "mset (concat (map (sample_of df') ?u))
      = image_mset fst (mset (filter (\<lambda>r. snd r \<in> set ?u) df'))"
    using mset_groups [OF unique_distinct, of snd df' "map snd df'"] by simp
  also have "filter (\<lambda>r. snd r \<in> set ?u) df' = df'"
    by (simp add: unique_set filter_id_conv)
  finally show ?thesis
    using b by simp
qed

text \<open>Three rows whose categories are null, a and b.\<close>

definition null_category :: "(rat \<times> string option) list" where
  "null_category = [(10, None), (20, Some ''a''), (30, Some ''b'')]"

text \<open>Claim C1, at a column with a null cell. \<^verbatim>\<open>nunique\<close> leaves the null out and \<^verbatim>\<open>unique\<close>
  keeps it: of three rows with the categories null, a and b the loop counts two
  categories, builds an empty sample for the null and the sample of a, and passes these two
  to the two-sample test. The row of category b is in no sample.\<close>

theorem NonParamTest_null_category:
  "nunique (map snd null_category) = 2
   \<and> build_samples null_category = [[], [20]]
   \<and> select_test (nunique (map snd null_category)) (build_samples null_category)
       = Some (mannwhitneyu [] [20])
   \<and> 30 \<notin> set (concat (build_samples null_category))"
proof -
  have k: "nunique (map snd null_category) = 2"
    by (simp add: nunique_def null_category_def)
  have u: "unique (map snd null_category) = [None, Some ''a'', Some ''b'']"
    by (simp add: unique_def null_category_def)
  have b: "build_samples null_category = [[], [20]]"
    unfolding build_samples_def k u
    by (simp add: sample_of_def null_category_def upt_rec)
  show ?thesis
    unfolding b k by (simp add: select_test_def)
qed

text \<open>Claim C4, as stated, at nine categories: the call does not complete, it raises.\<close>

theorem NonParamTest_nine_groups:
  "nunique (map snd nine_groups) = 9
   \<and> NonParamTest scipy_example nine_groups ''Q006'' alpha_default = Inl UnboundLocalError
   \<and> NonParamTest scipy_example nine_groups ''Q006'' alpha_default \<noteq> Inr []"
  by (simp add: NonParamTest_def Let_def nine_groups_k select_test_def)

definition one_group :: "(rat \<times> string option) list" where
  "one_group = [(500, Some ''SP''), (620, Some ''SP'')]"

theorem NonParamTest_unsupported_k_witness:
  "nunique (map snd one_group) \<notin> set supported_k
   \<and> select_test (nunique (map snd one_group)) (build_samples one_group) = None
   \<and> NonParamTest scipy_example one_group ''SG_UF_RESIDENCIA'' alpha_default
       = Inl UnboundLocalError"
proof -
  have "nunique (map snd one_group) = 1"
    by (simp add: nunique_def one_group_def)
  then have h: "nunique (map snd one_group) \<notin> set supported_k"
    by (simp add: supported_k_def)
  show ?thesis
    using h NonParamTest_unsupported_k [OF h, of scipy_example "''SG_UF_RESIDENCIA''" alpha_default]
    by simp
qed

text \<open>Two runs on supported sizes: two categories, and three.\<close>

definition two_groups :: "(rat \<times> string option) list" where
  "two_groups = [(500, Some ''A''), (620, Some ''B''), (480, Some ''A'')]"

lemma NonParamTest_two_groups:
  "NonParamTest (\<lambda>call. if call = mannwhitneyu [500, 480] [620]
                        then Inr (Some 0, Some (1 / 100)) else Inl ValueError)
     two_groups ''TP_SEXO'' alpha_default = Inr [(msg_different, Some (1 / 100), ''TP_SEXO'')]"
proof -
  have k: "nunique (map snd two_groups) = 2"
    by (simp add: nunique_def two_groups_def)
  have u: "unique (map snd two_groups) = [Some ''A'', Some ''B'']"
    by (simp add: unique_def two_groups_def)
  have b: "build_samples two_groups = [[500, 480], [620]]"
    unfolding build_samples_def k u
    by (simp add: sample_of_def two_groups_def upt_rec)
  show ?thesis
    unfolding NonParamTest_def b k
    by (simp add: select_test_def fl_gt_def alpha_default_def)
qed

section \<open>Merger and imputer: \<^verbatim>\<open>GetMerged\<close>\<close>

text \<open>
  The two tables are lists of rows with the columns the stage names.

  \<^item> A student row has the columns of \<open>student\<close> and the school key \<^verbatim>\<open>CO_ESCOLA\<close>, which may
    be null. The age, the total score and \<^verbatim>\<open>Q005\<close> are cells of any kind when they arrive
    (type \<open>'a\<close> and \<open>'n\<close> are \<open>cell\<close>) and floats once they are cast. The two categorical
    columns hold values of an ordered type \<open>'c\<close> or null. Every row has a state of
    residence: pandas has treated a null group key differently from one version to the
    next, and the model takes the tables on which all versions agree. \<open>rest\<close> stands for
    the other columns of the student table; the stage carries them along.
  \<^item> A school row is as the cleaner leaves it: a key that is a text, and three nullable
    floats.
  \<^item> \<^verbatim>\<open>applymap(str)\<close> turns every cell into the text Python prints for it. The model keeps
    the value the text is printed from and not its characters: in the table the stage
    returns, \<open>None\<close> in a categorical column is the text printed from a null. \<^verbatim>\<open>float\<close> of
    the text printed from a float is that float, NaN for NaN.
\<close>

record ('a, 'n, 'c, 'x) student =
  NU_IDADE :: 'a
  TP_ESTADO_CIVIL :: "'c option"
  TP_ENSINO :: "'c option"
  SG_UF_RESIDENCIA :: string
  NU_NOTA_TOT :: 'n
  Q005 :: 'n
  rest :: 'x

record ('a, 'n, 'c, 'x) enem_row = "('a, 'n, 'c, 'x) student" +
  CO_ESCOLA :: "string option"

record ideb_row =
  CO_ESCOLA_ideb :: string
  IN_RENDIMENTO_ideb :: fl
  NT_PADRONIZADA :: fl
  IDEB :: fl

record ('a, 'n, 'c, 'x) dfmerge_row = "('a, 'n, 'c, 'x) student" +
  IN_RENDIMENTO :: fl

text \<open>\<^verbatim>\<open>sort_values(by=['CO_ESCOLA'], inplace=True)\<close>: ascending, null keys last. pandas sorts
  with an algorithm that may reorder rows of equal key; the model sorts by insertion, and
  nothing below depends on the order among rows of one key.\<close>

definition na_last :: "string option \<Rightarrow> bool \<times> string" where
  "na_last k = (case k of None \<Rightarrow> (True, []) | Some s \<Rightarrow> (False, s))"

definition sort_values_enem :: "('a, 'n, 'c, 'x) enem_row list \<Rightarrow> ('a, 'n, 'c, 'x) enem_row list" where
  "sort_values_enem enem = sort_key (\<lambda>e. na_last (CO_ESCOLA e)) enem"

definition sort_values_ideb :: "ideb_row list \<Rightarrow> ideb_row list" where
  "sort_values_ideb ideb = sort_key CO_ESCOLA_ideb ideb"

text \<open>\<^verbatim>\<open>enem.merge(ideb, left_on='CO_ESCOLA', right_on='CO_ESCOLA', how='left')\<close>: every row
  of the left table, in order, once for each row of the right table with its key, and
  once with no right row when there is none.\<close>

definition merge_left ::
  "('a, 'n, 'c, 'x) enem_row list \<Rightarrow> ideb_row list \<Rightarrow> (('a, 'n, 'c, 'x) enem_row \<times> ideb_row option) list"
  where
  "merge_left enem ideb =
     concat (map (\<lambda>e. let matches = filter (\<lambda>i. CO_ESCOLA e = Some (CO_ESCOLA_ideb i)) ideb
                       in if matches = [] then [(e, None)] else map (\<lambda>i. (e, Some i)) matches)
               enem)"

text \<open>The value of a right column in a joined row: null where no right row matched.\<close>

definition outcome :: "(ideb_row \<Rightarrow> fl) \<Rightarrow> ('a, 'n, 'c, 'x) enem_row \<times> ideb_row option \<Rightarrow> fl" where
  "outcome column j = (case snd j of None \<Rightarrow> None | Some i \<Rightarrow> column i)"

text \<open>Lines 76 and 79, on one row: the key and the columns \<^verbatim>\<open>IDEB\<close> and \<^verbatim>\<open>NT_PADRONIZADA\<close> are
  dropped.\<close>

definition drop_labels ::
  "('a, 'n, 'c, 'x) enem_row \<times> ideb_row option \<Rightarrow> ('a, 'n, 'c, 'x) dfmerge_row" where
  "drop_labels j =
     \<lparr>NU_IDADE = NU_IDADE (fst j), TP_ESTADO_CIVIL = TP_ESTADO_CIVIL (fst j),
      TP_ENSINO = TP_ENSINO (fst j), SG_UF_RESIDENCIA = SG_UF_RESIDENCIA (fst j),
      NU_NOTA_TOT = NU_NOTA_TOT (fst j), Q005 = Q005 (fst j), rest = rest (fst j),
      IN_RENDIMENTO = outcome IN_RENDIMENTO_ideb j\<rparr>"

text \<open>A cell as a float, for \<^verbatim>\<open>astype('float64')\<close> and for \<^verbatim>\<open>float\<close> of the printed cell: NaN
  for a null, the number for a number, and for a text what Python's \<^verbatim>\<open>float\<close> reads in it,
  the parameter \<open>pyfloat\<close>, with \<open>None\<close> for its \<^verbatim>\<open>ValueError\<close>.\<close>

definition to_float :: "(string \<Rightarrow> fl option) \<Rightarrow> cell \<Rightarrow> fl option" where
  "to_float pyfloat v = (case v of Null \<Rightarrow> Some None | Num x \<Rightarrow> Some (Some x) | Txt s \<Rightarrow> pyfloat s)"

text \<open>A step on every row that fails as a whole when it fails on one row.\<close>

fun traverse :: "('a \<Rightarrow> 'b option) \<Rightarrow> 'a list \<Rightarrow> 'b list option" where
  "traverse f [] = Some []"
| "traverse f (x # xs) =
     (case f x of
        None \<Rightarrow> None
      | Some y \<Rightarrow> (case traverse f xs of None \<Rightarrow> None | Some ys \<Rightarrow> Some (y # ys)))"

text \<open>Line 82 on one row.\<close>

definition astype_NU_IDADE ::
  "(string \<Rightarrow> fl option) \<Rightarrow> (cell, 'n, 'c, 'x) dfmerge_row \<Rightarrow> (fl, 'n, 'c, 'x) dfmerge_row option"
  where
  "astype_NU_IDADE pyfloat r =
     (case to_float pyfloat (NU_IDADE r) of
        None \<Rightarrow> None
      | Some a \<Rightarrow>
          Some \<lparr>NU_IDADE = a, TP_ESTADO_CIVIL = TP_ESTADO_CIVIL r, TP_ENSINO = TP_ENSINO r,
                SG_UF_RESIDENCIA = SG_UF_RESIDENCIA r, NU_NOTA_TOT = NU_NOTA_TOT r,
                Q005 = Q005 r, rest = rest r, IN_RENDIMENTO = IN_RENDIMENTO r\<rparr>)"

text \<open>The values of a column that are not null.\<close>

fun dropna :: "'a option list \<Rightarrow> 'a list" where
  "dropna [] = []"
| "dropna (None # xs) = dropna xs"
| "dropna (Some x # xs) = x # dropna xs"

text \<open>\<^verbatim>\<open>Series.median()\<close>: the middle of the sorted values that are not null, the mean of the
  two middle ones when their number is even, and NaN when there is none.\<close>

definition median :: "fl list \<Rightarrow> fl" where
  "median col =
     (let s = sort (dropna col); n = length s
      in if n = 0 then None
         else if odd n then Some (s ! (n div 2))
         else Some ((s ! (n div 2 - 1) + s ! (n div 2)) / 2))"

text \<open>\<^verbatim>\<open>Series.mode()\<close>: the values that are not null and occur most often, ascending, and
  \<^verbatim>\<open>mode()[0]\<close>: the least of them, a \<^verbatim>\<open>KeyError\<close> when the column has no value.\<close>

definition mode :: "'c::linorder option list \<Rightarrow> 'c list" where
  "mode col =
     (let vs = dropna col; top = fold max (map (count_list vs) vs) 0
      in sort (remdups (filter (\<lambda>v. count_list vs v = top) vs)))"

definition mode_0 :: "'c::linorder option list \<Rightarrow> pyerr + 'c" where
  "mode_0 col = (case mode col of [] \<Rightarrow> Inl KeyError | m # ms \<Rightarrow> Inr m)"

text \<open>\<^verbatim>\<open>fillna(value)\<close> on one cell.\<close>

definition fillna :: "'a option \<Rightarrow> 'a option \<Rightarrow> 'a option" where
  "fillna v x = (case x of None \<Rightarrow> v | Some y \<Rightarrow> Some y)"

text \<open>Line 83.\<close>

definition fillna_NU_IDADE :: "(fl, 'n, 'c, 'x) dfmerge_row list \<Rightarrow> (fl, 'n, 'c, 'x) dfmerge_row list" where
  "fillna_NU_IDADE dfmerge =
     map (\<lambda>r. r\<lparr>NU_IDADE := fillna (median (map NU_IDADE dfmerge)) (NU_IDADE r)\<rparr>) dfmerge"

text \<open>Line 90: \<^verbatim>\<open>groupby('SG_UF_RESIDENCIA')['IN_RENDIMENTO'].transform('median')\<close> gives every
  row the median of the rows of its state.\<close>

definition transform_median :: "('a, 'n, 'c, 'x) dfmerge_row list \<Rightarrow> ('a, 'n, 'c, 'x) dfmerge_row \<Rightarrow> fl" where
  "transform_median dfmerge r =
     median (map IN_RENDIMENTO (filter (\<lambda>q. SG_UF_RESIDENCIA q = SG_UF_RESIDENCIA r) dfmerge))"

definition fillna_IN_RENDIMENTO :: "('a, 'n, 'c, 'x) dfmerge_row list \<Rightarrow> ('a, 'n, 'c, 'x) dfmerge_row list" where
  "fillna_IN_RENDIMENTO dfmerge =
     map (\<lambda>r. r\<lparr>IN_RENDIMENTO := fillna (transform_median dfmerge r) (IN_RENDIMENTO r)\<rparr>) dfmerge"

text \<open>Lines 92 to 95 on one row: every cell is printed, and the four numeric columns are
  read back. The age and the enrollment index are floats already; the total score and
  \<^verbatim>\<open>Q005\<close> may fail to read. Both columns raise the same error, so reading them row by
  row gives what reading them column by column gives.\<close>

definition apply_float ::
  "(string \<Rightarrow> fl option) \<Rightarrow> (fl, cell, 'c, 'x) dfmerge_row \<Rightarrow> (fl, fl, 'c, 'x) dfmerge_row option"
  where
  "apply_float pyfloat r =
     (case to_float pyfloat (NU_NOTA_TOT r) of
        None \<Rightarrow> None
      | Some t \<Rightarrow>
          (case to_float pyfloat (Q005 r) of
             None \<Rightarrow> None
           | Some q \<Rightarrow>
               Some \<lparr>NU_IDADE = NU_IDADE r, TP_ESTADO_CIVIL = TP_ESTADO_CIVIL r,
                     TP_ENSINO = TP_ENSINO r, SG_UF_RESIDENCIA = SG_UF_RESIDENCIA r,
                     NU_NOTA_TOT = t, Q005 = q, rest = rest r,
                     IN_RENDIMENTO = IN_RENDIMENTO r\<rparr>))"

text \<open>The body of the \<^verbatim>\<open>try\<close>, from the merge on, with the two tables sorted.\<close>

definition GetMerged_body ::
  "(string \<Rightarrow> fl option) \<Rightarrow> (cell, cell, 'c::linorder, 'x) enem_row list \<Rightarrow> ideb_row list
     \<Rightarrow> pyerr + (fl, fl, 'c, 'x) dfmerge_row list" where
  "GetMerged_body pyfloat enem ideb =
     (let dfmerge = map drop_labels (merge_left enem ideb) in
      case traverse (astype_NU_IDADE pyfloat) dfmerge of
        None \<Rightarrow> Inl ValueError
      | Some dfmerge \<Rightarrow>
          (let dfmerge = fillna_NU_IDADE dfmerge in
           case mode_0 (map TP_ESTADO_CIVIL dfmerge) of
             Inl e \<Rightarrow> Inl e
           | Inr m \<Rightarrow>
               (let dfmerge = map (\<lambda>r. r\<lparr>TP_ESTADO_CIVIL := fillna (Some m) (TP_ESTADO_CIVIL r)\<rparr>)
                                dfmerge in
                case mode_0 (map TP_ENSINO dfmerge) of
                  Inl e \<Rightarrow> Inl e
                | Inr m \<Rightarrow>
                    (let dfmerge = map (\<lambda>r. r\<lparr>TP_ENSINO := fillna (Some m) (TP_ENSINO r)\<rparr>)
                                     dfmerge;
                         dfmerge = fillna_IN_RENDIMENTO dfmerge
                     in case traverse (apply_float pyfloat) dfmerge of
                          None \<Rightarrow> Inl ValueError
                        | Some dfmerge \<Rightarrow> Inr dfmerge))))"

text \<open>
  The stage. It sorts the two tables of its caller in place before it merges them, so the
  model returns them with the result: the result or the error first, then the student
  table and the school table as the call leaves them. Line 70 prints the school key,
  which is a text already.
\<close>

definition GetMerged ::
  "(string \<Rightarrow> fl option) \<Rightarrow> (cell, cell, 'c::linorder, 'x) enem_row list \<Rightarrow> ideb_row list
     \<Rightarrow> (pyerr + (fl, fl, 'c, 'x) dfmerge_row list)
         \<times> (cell, cell, 'c, 'x) enem_row list \<times> ideb_row list" where
  "GetMerged pyfloat enem ideb =
     (let ideb = sort_values_ideb ideb;
          enem = sort_values_enem enem
      in (raise_print (GetMerged_body pyfloat enem ideb), enem, ideb))"

section \<open>Properties of the merger and imputer\<close>

subsection \<open>The steps\<close>

lemma traverse_list_all2:
  "traverse f xs = Some ys \<longleftrightarrow> list_all2 (\<lambda>x y. f x = Some y) xs ys"
proof
  show "traverse f xs = Some ys \<Longrightarrow> list_all2 (\<lambda>x y. f x = Some y) xs ys"
    by (induction xs arbitrary: ys) (auto split: option.splits)
  show "list_all2 (\<lambda>x y. f x = Some y) xs ys \<Longrightarrow> traverse f xs = Some ys"
    by (induction xs ys rule: list_all2_induct) auto
qed

lemma traverse_None: "traverse f xs = None \<longleftrightarrow> (\<exists>x \<in> set xs. f x = None)"
  by (induction xs) (auto split: option.splits)

lemma list_all2_map_eq:
  "list_all2 P xs ys \<Longrightarrow> (\<And>x y. P x y \<Longrightarrow> g y = h x) \<Longrightarrow> map g ys = map h xs"
  by (induction xs ys rule: list_all2_induct) auto

lemma dropna_empty: "dropna col = [] \<longleftrightarrow> (\<forall>x \<in> set col. x = None)"
  by (induction col rule: dropna.induct) auto


lemma sort_Nil_iff: "sort_key f xs = [] \<longleftrightarrow> xs = []"
  by (metis length_0_conv length_sort)


lemma fold_max_upper: "x \<in> set xs \<Longrightarrow> x \<le> fold max xs (a::nat)"
proof (induction xs arbitrary: a)
  case Nil
  then show ?case by simp
next
  case (Cons y ys)
  have mono: "b \<le> fold max ys b" for b :: nat
    by (induction ys arbitrary: b) (auto intro: order_trans [OF max.cobounded2])
  show ?case
  proof (cases "x = y")
    case True
    then show ?thesis
      using mono [of "max y a"] by simp
  next
    case False
    with Cons show ?thesis by simp
  qed
qed

lemma fold_max_mem: "fold max xs (a::nat) \<in> insert a (set xs)"
  by (induction xs arbitrary: a) (auto simp: max_def)

lemma fold_max_attained: "xs \<noteq> [] \<Longrightarrow> fold max xs (0::nat) \<in> set xs"
proof -
  assume ne: "xs \<noteq> []"
  show ?thesis
  proof (cases "fold max xs 0 = 0")
    case True
    obtain x where x: "x \<in> set xs"
      using ne by (cases xs) auto
    with fold_max_upper [OF x, of 0] True have "x = 0" by simp
    with x True show ?thesis by simp
  next
    case False
    with fold_max_mem [of xs 0] show ?thesis by auto
  qed
qed

lemma mode_empty: "mode col = [] \<longleftrightarrow> dropna col = []"
proof
  assume "dropna col = []"
  then show "mode col = []"
    by (simp add: mode_def)
next
  assume m: "mode col = []"
  show "dropna col = []"
  proof (rule ccontr)
    assume ne: "dropna col \<noteq> []"
    let ?vs = "dropna col"
    have "fold max (map (count_list ?vs) ?vs) 0 \<in> set (map (count_list ?vs) ?vs)"
      using ne by (intro fold_max_attained) simp
    then obtain v where "v \<in> set ?vs" "count_list ?vs v = fold max (map (count_list ?vs) ?vs) 0"
      by auto
    then have "filter (\<lambda>v. count_list ?vs v = fold max (map (count_list ?vs) ?vs) 0) ?vs \<noteq> []"
      by (auto simp: filter_empty_conv)
    then have "mode col \<noteq> []"
      by (simp add: mode_def Let_def sort_Nil_iff)
    with m show False by simp
  qed
qed

lemma mode_0_KeyError: "mode_0 col = Inl e \<longleftrightarrow> e = KeyError \<and> (\<forall>x \<in> set col. x = None)"
  using mode_empty [of col] dropna_empty [of col]
  by (auto simp: mode_0_def split: list.splits)

lemma mode_0_Inr: "(\<exists>m. mode_0 col = Inr m) \<longleftrightarrow> (\<exists>x \<in> set col. x \<noteq> None)"
  using mode_0_KeyError [of col] by (cases "mode_0 col") auto



lemma astype_NU_IDADE_Some:
  assumes "astype_NU_IDADE pyfloat r = Some r1"
  shows "to_float pyfloat (NU_IDADE r) = Some (NU_IDADE r1)"
    and "TP_ESTADO_CIVIL r1 = TP_ESTADO_CIVIL r" and "TP_ENSINO r1 = TP_ENSINO r"
    and "SG_UF_RESIDENCIA r1 = SG_UF_RESIDENCIA r" and "NU_NOTA_TOT r1 = NU_NOTA_TOT r"
    and "Q005 r1 = Q005 r" and "rest r1 = rest r" and "IN_RENDIMENTO r1 = IN_RENDIMENTO r"
  using assms by (auto simp: astype_NU_IDADE_def split: option.splits)

lemma apply_float_Some:
  assumes "apply_float pyfloat r = Some r1"
  shows "NU_IDADE r1 = NU_IDADE r"
    and "TP_ESTADO_CIVIL r1 = TP_ESTADO_CIVIL r" and "TP_ENSINO r1 = TP_ENSINO r"
    and "SG_UF_RESIDENCIA r1 = SG_UF_RESIDENCIA r"
    and "to_float pyfloat (NU_NOTA_TOT r) = Some (NU_NOTA_TOT r1)"
    and "to_float pyfloat (Q005 r) = Some (Q005 r1)"
    and "rest r1 = rest r" and "IN_RENDIMENTO r1 = IN_RENDIMENTO r"
  using assms by (auto simp: apply_float_def split: option.splits)

lemma astype_NU_IDADE_None: "astype_NU_IDADE pyfloat r = None \<longleftrightarrow> to_float pyfloat (NU_IDADE r) = None"
  by (simp add: astype_NU_IDADE_def split: option.splits)

lemma apply_float_None:
  "apply_float pyfloat r = None \<longleftrightarrow>
     to_float pyfloat (NU_NOTA_TOT r) = None \<or> to_float pyfloat (Q005 r) = None"
  by (simp add: apply_float_def split: option.splits)

text \<open>The median of the state depends on the two columns it reads only.\<close>

lemma group_column:
  "map IN_RENDIMENTO (filter (\<lambda>q. SG_UF_RESIDENCIA q = s) zs)
     = map snd (filter (\<lambda>p. fst p = s) (map (\<lambda>r. (SG_UF_RESIDENCIA r, IN_RENDIMENTO r)) zs))"
  by (induction zs) auto

lemma transform_median_cong:
  assumes "map (\<lambda>r. (SG_UF_RESIDENCIA r, IN_RENDIMENTO r)) xs
         = map (\<lambda>r. (SG_UF_RESIDENCIA r, IN_RENDIMENTO r)) ys"
    and "SG_UF_RESIDENCIA x = SG_UF_RESIDENCIA y"
  shows "transform_median xs x = transform_median ys y"
  unfolding transform_median_def group_column using assms by simp

text \<open>The table after the merge and the drops (line 79), for the tables of the caller.\<close>

definition dfmerge_79 ::
  "('a, 'n, 'c, 'x) enem_row list \<Rightarrow> ideb_row list \<Rightarrow> ('a, 'n, 'c, 'x) dfmerge_row list" where
  "dfmerge_79 enem ideb =
     map drop_labels (merge_left (sort_values_enem enem) (sort_values_ideb ideb))"

text \<open>What a run that returns a table has done, column by column.\<close>

lemma GetMerged_body_Inr:
  fixes enem :: "(cell, cell, 'c::linorder, 'x) enem_row list"
  assumes run: "GetMerged_body pyfloat enem ideb = Inr out"
  defines "D \<equiv> map drop_labels (merge_left enem ideb)"
  shows "\<exists>ages m1 m2.
           list_all2 (\<lambda>r a. to_float pyfloat (NU_IDADE r) = Some a) D ages
         \<and> mode_0 (map TP_ESTADO_CIVIL D) = Inr m1
         \<and> mode_0 (map TP_ENSINO D) = Inr m2
         \<and> map NU_IDADE out = map (fillna (median ages)) ages
         \<and> map TP_ESTADO_CIVIL out = map (\<lambda>r. fillna (Some m1) (TP_ESTADO_CIVIL r)) D
         \<and> map TP_ENSINO out = map (\<lambda>r. fillna (Some m2) (TP_ENSINO r)) D
         \<and> map IN_RENDIMENTO out
             = map (\<lambda>r. fillna (transform_median D r) (IN_RENDIMENTO r)) D
         \<and> map SG_UF_RESIDENCIA out = map SG_UF_RESIDENCIA D
         \<and> map rest out = map rest D
         \<and> list_all2 (\<lambda>r t. to_float pyfloat (NU_NOTA_TOT r) = Some (NU_NOTA_TOT t)
                           \<and> to_float pyfloat (Q005 r) = Some (Q005 t)) D out"
proof -
  from run obtain D1 where t1: "traverse (astype_NU_IDADE pyfloat) D = Some D1"
    unfolding GetMerged_body_def D_def Let_def by (auto split: option.splits)
  define D2 where "D2 = fillna_NU_IDADE D1"
  from run t1 obtain m1 where m1: "mode_0 (map TP_ESTADO_CIVIL D2) = Inr m1"
    unfolding GetMerged_body_def D_def D2_def Let_def by (auto split: sum.splits)
  define D3 where "D3 = map (\<lambda>r. r\<lparr>TP_ESTADO_CIVIL := fillna (Some m1) (TP_ESTADO_CIVIL r)\<rparr>) D2"
  from run t1 m1 obtain m2 where m2: "mode_0 (map TP_ENSINO D3) = Inr m2"
    unfolding GetMerged_body_def D_def D2_def D3_def Let_def by (auto split: sum.splits)
  define D4 where "D4 = map (\<lambda>r. r\<lparr>TP_ENSINO := fillna (Some m2) (TP_ENSINO r)\<rparr>) D3"
  define D5 where "D5 = fillna_IN_RENDIMENTO D4"
  from run t1 m1 m2 have t5: "traverse (apply_float pyfloat) D5 = Some out"
    unfolding GetMerged_body_def D_def D2_def D3_def D4_def D5_def Let_def
    by (auto split: option.splits)
  have a1: "list_all2 (\<lambda>r r1. astype_NU_IDADE pyfloat r = Some r1) D D1"
    using t1 by (simp add: traverse_list_all2)
  have a5: "list_all2 (\<lambda>r t. apply_float pyfloat r = Some t) D5 out"
    using t5 by (simp add: traverse_list_all2)
  have ages: "list_all2 (\<lambda>r a. to_float pyfloat (NU_IDADE r) = Some a) D (map NU_IDADE D1)"
    using a1 by (simp add: list_all2_map2) (erule list_all2_mono, rule astype_NU_IDADE_Some(1))
  have ec1: "map TP_ESTADO_CIVIL D1 = map TP_ESTADO_CIVIL D"
    and en1: "map TP_ENSINO D1 = map TP_ENSINO D"
    and sg1: "map SG_UF_RESIDENCIA D1 = map SG_UF_RESIDENCIA D"
    and re1: "map rest D1 = map rest D"
    and in1: "map IN_RENDIMENTO D1 = map IN_RENDIMENTO D"
    using a1 by (rule list_all2_map_eq, simp add: astype_NU_IDADE_Some)+
  have ec2: "map TP_ESTADO_CIVIL D2 = map TP_ESTADO_CIVIL D"
    using ec1 by (simp add: D2_def fillna_NU_IDADE_def comp_def)
  have en3: "map TP_ENSINO D3 = map TP_ENSINO D"
    using en1 by (simp add: D3_def D2_def fillna_NU_IDADE_def comp_def)
  have c_age: "map NU_IDADE out = map (fillna (median (map NU_IDADE D1))) (map NU_IDADE D1)"
  proof -
    have "map NU_IDADE out = map NU_IDADE D5"
      using a5 by (rule list_all2_map_eq) (simp add: apply_float_Some)
    then show ?thesis
      by (simp add: D5_def D4_def D3_def D2_def fillna_IN_RENDIMENTO_def fillna_NU_IDADE_def
          comp_def)
  qed
  have c_ec: "map TP_ESTADO_CIVIL out = map (\<lambda>r. fillna (Some m1) (TP_ESTADO_CIVIL r)) D"
  proof -
    have "map TP_ESTADO_CIVIL out = map TP_ESTADO_CIVIL D5"
      using a5 by (rule list_all2_map_eq) (simp add: apply_float_Some)
    also have "\<dots> = map (fillna (Some m1)) (map TP_ESTADO_CIVIL D1)"
      by (simp add: D5_def D4_def D3_def D2_def fillna_IN_RENDIMENTO_def fillna_NU_IDADE_def
          comp_def)
    finally show ?thesis
      by (simp add: ec1 comp_def)
  qed
  have c_en: "map TP_ENSINO out = map (\<lambda>r. fillna (Some m2) (TP_ENSINO r)) D"
  proof -
    have "map TP_ENSINO out = map TP_ENSINO D5"
      using a5 by (rule list_all2_map_eq) (simp add: apply_float_Some)
    also have "\<dots> = map (fillna (Some m2)) (map TP_ENSINO D1)"
      by (simp add: D5_def D4_def D3_def D2_def fillna_IN_RENDIMENTO_def fillna_NU_IDADE_def
          comp_def)
    finally show ?thesis
      by (simp add: en1 comp_def)
  qed
  have sg4: "map SG_UF_RESIDENCIA D4 = map SG_UF_RESIDENCIA D"
    and in4: "map IN_RENDIMENTO D4 = map IN_RENDIMENTO D"
    and re4: "map rest D4 = map rest D"
    using sg1 in1 re1 by (simp_all add: D4_def D3_def D2_def fillna_NU_IDADE_def comp_def)
  have len4: "length D4 = length D"
    using sg4 by (metis length_map)
  have pair4: "map (\<lambda>r. (SG_UF_RESIDENCIA r, IN_RENDIMENTO r)) D4
             = map (\<lambda>r. (SG_UF_RESIDENCIA r, IN_RENDIMENTO r)) D"
    using sg4 in4 len4 by (simp add: list_eq_iff_nth_eq)
  have c_in: "map IN_RENDIMENTO out = map (\<lambda>r. fillna (transform_median D r) (IN_RENDIMENTO r)) D"
  proof -
    have "map IN_RENDIMENTO out = map IN_RENDIMENTO D5"
      using a5 by (rule list_all2_map_eq) (simp add: apply_float_Some)
    also have "\<dots> = map (\<lambda>r. fillna (transform_median D4 r) (IN_RENDIMENTO r)) D4"
      by (simp add: D5_def fillna_IN_RENDIMENTO_def comp_def)
    also have "\<dots> = map (\<lambda>r. fillna (transform_median D r) (IN_RENDIMENTO r)) D"
    proof (rule nth_equalityI)
      show "length (map (\<lambda>r. fillna (transform_median D4 r) (IN_RENDIMENTO r)) D4)
          = length (map (\<lambda>r. fillna (transform_median D r) (IN_RENDIMENTO r)) D)"
        using len4 by simp
    next
      fix i
      assume "i < length (map (\<lambda>r. fillna (transform_median D4 r) (IN_RENDIMENTO r)) D4)"
      then have i: "i < length D4" "i < length D"
        using len4 by simp_all
      have s: "SG_UF_RESIDENCIA (D4 ! i) = SG_UF_RESIDENCIA (D ! i)"
        using sg4 i by (metis nth_map)
      have n: "IN_RENDIMENTO (D4 ! i) = IN_RENDIMENTO (D ! i)"
        using in4 i by (metis nth_map)
      show "map (\<lambda>r. fillna (transform_median D4 r) (IN_RENDIMENTO r)) D4 ! i
          = map (\<lambda>r. fillna (transform_median D r) (IN_RENDIMENTO r)) D ! i"
        using i n transform_median_cong [OF pair4 s] by simp
    qed
    finally show ?thesis .
  qed
  have c_sg: "map SG_UF_RESIDENCIA out = map SG_UF_RESIDENCIA D"
  proof -
    have "map SG_UF_RESIDENCIA out = map SG_UF_RESIDENCIA D5"
      using a5 by (rule list_all2_map_eq) (simp add: apply_float_Some)
    then show ?thesis
      using sg4 by (simp add: D5_def fillna_IN_RENDIMENTO_def comp_def)
  qed
  have c_re: "map rest out = map rest D"
  proof -
    have "map rest out = map rest D5"
      using a5 by (rule list_all2_map_eq) (simp add: apply_float_Some)
    then show ?thesis
      using re4 by (simp add: D5_def fillna_IN_RENDIMENTO_def comp_def)
  qed
  have c_sc: "list_all2 (\<lambda>r t. to_float pyfloat (NU_NOTA_TOT r) = Some (NU_NOTA_TOT t)
                           \<and> to_float pyfloat (Q005 r) = Some (Q005 t)) D out"
  proof (rule list_all2_all_nthI)
    show l: "length D = length out"
      using c_sg by (metis length_map)
    fix i
    assume i: "i < length D"
    have l5: "length D5 = length out"
      using a5 by (rule list_all2_lengthD)
    have "apply_float pyfloat (D5 ! i) = Some (out ! i)"
      using a5 i l l5 by (simp add: list_all2_conv_all_nth)
    moreover have "astype_NU_IDADE pyfloat (D ! i) = Some (D1 ! i)"
      using a1 i by (simp add: list_all2_conv_all_nth)
    moreover have "NU_NOTA_TOT (D5 ! i) = NU_NOTA_TOT (D1 ! i)" "Q005 (D5 ! i) = Q005 (D1 ! i)"
      using i l l5
      by (simp_all add: D5_def D4_def D3_def D2_def fillna_IN_RENDIMENTO_def fillna_NU_IDADE_def)
    ultimately show "to_float pyfloat (NU_NOTA_TOT (D ! i)) = Some (NU_NOTA_TOT (out ! i))
        \<and> to_float pyfloat (Q005 (D ! i)) = Some (Q005 (out ! i))"
      by (metis apply_float_Some(5,6) astype_NU_IDADE_Some(5,6))
  qed
  show ?thesis
    using ages m1 m2 c_age c_ec c_en c_in c_sg c_re c_sc unfolding ec2 en3
    by blast
qed

subsection \<open>The join\<close>

lemma merge_left_fst: "fst ` set (merge_left enem ideb) = set enem"
proof -
  have "fst ` set (let matches = filter (\<lambda>i. CO_ESCOLA e = Some (CO_ESCOLA_ideb i)) ideb
                   in if matches = [] then [(e, None)] else map (\<lambda>i. (e, Some i)) matches) = {e}"
    for e :: "('a, 'b, 'c, 'd) enem_row"
    by (auto simp: Let_def image_iff filter_empty_conv)
  then show ?thesis
    unfolding merge_left_def by (auto simp: image_UN)
qed



lemma drop_labels_student:
  "NU_IDADE (drop_labels j) = NU_IDADE (fst j)"
  "TP_ESTADO_CIVIL (drop_labels j) = TP_ESTADO_CIVIL (fst j)"
  "TP_ENSINO (drop_labels j) = TP_ENSINO (fst j)"
  "SG_UF_RESIDENCIA (drop_labels j) = SG_UF_RESIDENCIA (fst j)"
  "NU_NOTA_TOT (drop_labels j) = NU_NOTA_TOT (fst j)"
  "Q005 (drop_labels j) = Q005 (fst j)"
  "rest (drop_labels j) = rest (fst j)"
  "IN_RENDIMENTO (drop_labels j) = outcome IN_RENDIMENTO_ideb j"
  by (simp_all add: drop_labels_def)

text \<open>A column of the student table has in the merged table the values it has in the
  student table.\<close>

lemma merged_column:
  assumes "\<And>j. g (drop_labels j) = h (fst j)"
  shows "g ` set (map drop_labels (merge_left enem ideb)) = h ` set enem"
proof -
  have "g ` set (map drop_labels (merge_left enem ideb)) = h ` fst ` set (merge_left enem ideb)"
    using assms by (simp add: image_image)
  then show ?thesis
    by (simp add: merge_left_fst)
qed

subsection \<open>When the stage returns\<close>

lemma GetMerged_body_returns:
  fixes enem :: "(cell, cell, 'c::linorder, 'x) enem_row list"
  assumes casts: "\<forall>e \<in> set enem. to_float pyfloat (NU_IDADE e) \<noteq> None
                    \<and> to_float pyfloat (NU_NOTA_TOT e) \<noteq> None \<and> to_float pyfloat (Q005 e) \<noteq> None"
    and ec: "\<exists>e \<in> set enem. TP_ESTADO_CIVIL e \<noteq> None"
    and en: "\<exists>e \<in> set enem. TP_ENSINO e \<noteq> None"
  shows "\<exists>out. GetMerged_body pyfloat enem ideb = Inr out"
proof -
  define D where "D = map drop_labels (merge_left enem ideb)"
  have col: "g ` set D = h ` set enem" if "\<And>j. g (drop_labels j) = h (fst j)"
    for g :: "(cell, cell, 'c, 'x) dfmerge_row \<Rightarrow> 'v" and h
    unfolding D_def using that by (rule merged_column)
  have "to_float pyfloat (NU_IDADE r) \<noteq> None" if r: "r \<in> set D" for r
  proof -
    have "NU_IDADE r \<in> NU_IDADE ` set enem"
      using col [of NU_IDADE NU_IDADE] r by (simp add: drop_labels_student) blast
    then show ?thesis
      using casts by auto
  qed
  then have "traverse (astype_NU_IDADE pyfloat) D \<noteq> None"
    by (simp add: traverse_None astype_NU_IDADE_None)
  then obtain D1 where t1: "traverse (astype_NU_IDADE pyfloat) D = Some D1"
    by auto
  then have a1: "list_all2 (\<lambda>r r1. astype_NU_IDADE pyfloat r = Some r1) D D1"
    by (simp add: traverse_list_all2)
  have ec1: "map TP_ESTADO_CIVIL D1 = map TP_ESTADO_CIVIL D"
    and en1: "map TP_ENSINO D1 = map TP_ENSINO D"
    and nt1: "map NU_NOTA_TOT D1 = map NU_NOTA_TOT D"
    and q1: "map Q005 D1 = map Q005 D"
    using a1 by (rule list_all2_map_eq, simp add: astype_NU_IDADE_Some)+
  define D2 where "D2 = fillna_NU_IDADE D1"
  have ec2: "map TP_ESTADO_CIVIL D2 = map TP_ESTADO_CIVIL D"
    using ec1 by (simp add: D2_def fillna_NU_IDADE_def comp_def)
  have "set (map TP_ESTADO_CIVIL D2) = TP_ESTADO_CIVIL ` set enem"
    unfolding ec2 using col [of TP_ESTADO_CIVIL TP_ESTADO_CIVIL]
    by (simp add: drop_labels_student)
  then have "\<exists>x \<in> set (map TP_ESTADO_CIVIL D2). x \<noteq> None"
    using ec by (metis imageI)
  then obtain m1 where m1: "mode_0 (map TP_ESTADO_CIVIL D2) = Inr m1"
    using mode_0_Inr by blast
  define D3 where "D3 = map (\<lambda>r. r\<lparr>TP_ESTADO_CIVIL := fillna (Some m1) (TP_ESTADO_CIVIL r)\<rparr>) D2"
  have en3: "map TP_ENSINO D3 = map TP_ENSINO D"
    using en1 by (simp add: D3_def D2_def fillna_NU_IDADE_def comp_def)
  have "set (map TP_ENSINO D3) = TP_ENSINO ` set enem"
    unfolding en3 using col [of TP_ENSINO TP_ENSINO]
    by (simp add: drop_labels_student)
  then have "\<exists>x \<in> set (map TP_ENSINO D3). x \<noteq> None"
    using en by (metis imageI)
  then obtain m2 where m2: "mode_0 (map TP_ENSINO D3) = Inr m2"
    using mode_0_Inr by blast
  define D5 where
    "D5 = fillna_IN_RENDIMENTO (map (\<lambda>r. r\<lparr>TP_ENSINO := fillna (Some m2) (TP_ENSINO r)\<rparr>) D3)"
  have nt5: "map NU_NOTA_TOT D5 = map NU_NOTA_TOT D" and q5: "map Q005 D5 = map Q005 D"
    using nt1 q1
    by (simp_all add: D5_def D3_def D2_def fillna_IN_RENDIMENTO_def fillna_NU_IDADE_def comp_def)
  have "to_float pyfloat (NU_NOTA_TOT r) \<noteq> None \<and> to_float pyfloat (Q005 r) \<noteq> None"
    if r: "r \<in> set D5" for r
  proof -
    have "NU_NOTA_TOT r \<in> set (map NU_NOTA_TOT D)" "Q005 r \<in> set (map Q005 D)"
      using r nt5 q5 by (metis imageI list.set_map)+
    then have "NU_NOTA_TOT r \<in> NU_NOTA_TOT ` set enem" "Q005 r \<in> Q005 ` set enem"
      using col [of NU_NOTA_TOT NU_NOTA_TOT] col [of Q005 Q005]
      by (simp_all add: drop_labels_student)
    then show ?thesis
      using casts by auto
  qed
  then have "traverse (apply_float pyfloat) D5 \<noteq> None"
    by (simp add: traverse_None apply_float_None)
  then obtain out where t5: "traverse (apply_float pyfloat) D5 = Some out"
    by auto
  have "GetMerged_body pyfloat enem ideb = Inr out"
    using t1 m1 m2 t5
    by (simp add: GetMerged_body_def Let_def D_def [symmetric] D2_def [symmetric]
        D3_def [symmetric] D5_def [symmetric])
  then show ?thesis ..
qed

lemma GetMerged_body_Inr_conditions:
  fixes enem :: "(cell, cell, 'c::linorder, 'x) enem_row list"
  assumes run: "GetMerged_body pyfloat enem ideb = Inr out"
  shows "(\<forall>e \<in> set enem. to_float pyfloat (NU_IDADE e) \<noteq> None
            \<and> to_float pyfloat (NU_NOTA_TOT e) \<noteq> None \<and> to_float pyfloat (Q005 e) \<noteq> None)
       \<and> (\<exists>e \<in> set enem. TP_ESTADO_CIVIL e \<noteq> None)
       \<and> (\<exists>e \<in> set enem. TP_ENSINO e \<noteq> None)"
proof -
  define D where "D = map drop_labels (merge_left enem ideb)"
  have col: "g ` set D = h ` set enem" if "\<And>j. g (drop_labels j) = h (fst j)"
    for g :: "(cell, cell, 'c, 'x) dfmerge_row \<Rightarrow> 'v" and h
    unfolding D_def using that by (rule merged_column)
  from GetMerged_body_Inr [OF run] obtain ages m1 m2 where
    ages: "list_all2 (\<lambda>r a. to_float pyfloat (NU_IDADE r) = Some a) D ages"
    and m1: "mode_0 (map TP_ESTADO_CIVIL D) = Inr m1"
    and m2: "mode_0 (map TP_ENSINO D) = Inr m2"
    and sc: "list_all2 (\<lambda>r t. to_float pyfloat (NU_NOTA_TOT r) = Some (NU_NOTA_TOT t)
                           \<and> to_float pyfloat (Q005 r) = Some (Q005 t)) D out"
    unfolding D_def by blast
  have d1: "\<forall>r \<in> set D. to_float pyfloat (NU_IDADE r) \<noteq> None"
    using ages by (auto simp: list_all2_conv_all_nth in_set_conv_nth)
  have d2: "\<forall>r \<in> set D. to_float pyfloat (NU_NOTA_TOT r) \<noteq> None \<and> to_float pyfloat (Q005 r) \<noteq> None"
    using sc by (auto simp: list_all2_conv_all_nth in_set_conv_nth)
  have c1: "to_float pyfloat (NU_IDADE e) \<noteq> None \<and> to_float pyfloat (NU_NOTA_TOT e) \<noteq> None
        \<and> to_float pyfloat (Q005 e) \<noteq> None" if e: "e \<in> set enem" for e
  proof -
    have "e \<in> fst ` set (merge_left enem ideb)"
      using e by (simp add: merge_left_fst)
    then obtain j where j: "j \<in> set (merge_left enem ideb)" "fst j = e"
      by auto
    then have "drop_labels j \<in> set D"
      by (simp add: D_def)
    with d1 d2 j(2) show ?thesis
      by (metis drop_labels_student(1,5,6))
  qed
  have "\<exists>x \<in> set (map TP_ESTADO_CIVIL D). x \<noteq> None"
    using m1 mode_0_Inr by blast
  then have c2: "\<exists>e \<in> set enem. TP_ESTADO_CIVIL e \<noteq> None"
    using col [of TP_ESTADO_CIVIL TP_ESTADO_CIVIL] by (simp add: drop_labels_student)
  have "\<exists>x \<in> set (map TP_ENSINO D). x \<noteq> None"
    using m2 mode_0_Inr by blast
  then have c3: "\<exists>e \<in> set enem. TP_ENSINO e \<noteq> None"
    using col [of TP_ENSINO TP_ENSINO] by (simp add: drop_labels_student)
  show ?thesis
    using c1 c2 c3 by blast
qed

lemma raise_print_Inr [simp]: "raise_print r = Inr x \<longleftrightarrow> r = Inr x"
  by (simp add: raise_print_def split: sum.splits)

lemma raise_print_Inl: "raise_print r = Inl e \<longleftrightarrow> e = TypeError \<and> (\<exists>e'. r = Inl e')"
  by (auto simp: raise_print_def split: sum.splits)

text \<open>The table the merge of line 75 builds, for the tables of the caller.\<close>

definition joined ::
  "('a, 'n, 'c, 'x) enem_row list \<Rightarrow> ideb_row list \<Rightarrow> (('a, 'n, 'c, 'x) enem_row \<times> ideb_row option) list"
  where
  "joined enem ideb = merge_left (sort_values_enem enem) (sort_values_ideb ideb)"

lemma dfmerge_79_joined: "dfmerge_79 enem ideb = map drop_labels (joined enem ideb)"
  by (simp add: dfmerge_79_def joined_def)

lemma GetMerged_fst:
  "fst (GetMerged pyfloat enem ideb)
     = raise_print (GetMerged_body pyfloat (sort_values_enem enem) (sort_values_ideb ideb))"
  by (simp add: GetMerged_def Let_def)

subsection \<open>The school columns the stage drops\<close>






subsection \<open>Main results on the merger and imputer\<close>





text \<open>
  Claim C5, amended. The stage returns a table exactly when every age, total score and
  \<^verbatim>\<open>Q005\<close> of the student table reads as a float, and the student table has a marital
  status that is not null and a school type that is not null; otherwise it fails, with the
  \<^verbatim>\<open>TypeError\<close> of its \<^verbatim>\<open>raise print(...)\<close>. The enrollment indices are not among the
  conditions: a state of residence without an index that is not null does not make the
  stage fail.
\<close>

theorem GetMerged_returns_iff:
  fixes enem :: "(cell, cell, 'c::linorder, 'x) enem_row list"
  shows "((\<exists>out. fst (GetMerged pyfloat enem ideb) = Inr out) \<longleftrightarrow>
            (\<forall>e \<in> set enem. to_float pyfloat (NU_IDADE e) \<noteq> None
               \<and> to_float pyfloat (NU_NOTA_TOT e) \<noteq> None \<and> to_float pyfloat (Q005 e) \<noteq> None)
          \<and> (\<exists>e \<in> set enem. TP_ESTADO_CIVIL e \<noteq> None)
          \<and> (\<exists>e \<in> set enem. TP_ENSINO e \<noteq> None))
       \<and> ((\<exists>out. fst (GetMerged pyfloat enem ideb) = Inr out)
            \<or> fst (GetMerged pyfloat enem ideb) = Inl TypeError)"
proof -
  let ?E = "sort_values_enem enem" and ?I = "sort_values_ideb ideb"
  have s: "set ?E = set enem"
    by (simp add: sort_values_enem_def)
  have "(\<exists>out. GetMerged_body pyfloat ?E ?I = Inr out) \<longleftrightarrow>
            (\<forall>e \<in> set ?E. to_float pyfloat (NU_IDADE e) \<noteq> None
               \<and> to_float pyfloat (NU_NOTA_TOT e) \<noteq> None \<and> to_float pyfloat (Q005 e) \<noteq> None)
          \<and> (\<exists>e \<in> set ?E. TP_ESTADO_CIVIL e \<noteq> None)
          \<and> (\<exists>e \<in> set ?E. TP_ENSINO e \<noteq> None)"
    using GetMerged_body_returns [of ?E pyfloat ?I] GetMerged_body_Inr_conditions [of pyfloat ?E ?I]
    by blast
  then have a: "(\<exists>out. fst (GetMerged pyfloat enem ideb) = Inr out) \<longleftrightarrow>
            (\<forall>e \<in> set enem. to_float pyfloat (NU_IDADE e) \<noteq> None
               \<and> to_float pyfloat (NU_NOTA_TOT e) \<noteq> None \<and> to_float pyfloat (Q005 e) \<noteq> None)
          \<and> (\<exists>e \<in> set enem. TP_ESTADO_CIVIL e \<noteq> None)
          \<and> (\<exists>e \<in> set enem. TP_ENSINO e \<noteq> None)"
    unfolding GetMerged_fst s by simp
  have b: "(\<exists>out. fst (GetMerged pyfloat enem ideb) = Inr out)
            \<or> fst (GetMerged pyfloat enem ideb) = Inl TypeError"
    unfolding GetMerged_fst
    by (cases "GetMerged_body pyfloat ?E ?I") (simp_all add: raise_print_def)
  show ?thesis
    using a b by blast
qed


text \<open>
  Claim C9, amended. The stage sorts the two tables of its caller in place: after the
  call, whether it returned or failed, each table holds the rows it held, in ascending
  order of the school key, the rows without a key last in the student table.
\<close>

theorem GetMerged_sorts_in_place:
  fixes enem :: "(cell, cell, 'c::linorder, 'x) enem_row list"
  shows "mset (fst (snd (GetMerged pyfloat enem ideb))) = mset enem
       \<and> sorted (map (\<lambda>e. na_last (CO_ESCOLA e)) (fst (snd (GetMerged pyfloat enem ideb))))
       \<and> mset (snd (snd (GetMerged pyfloat enem ideb))) = mset ideb
       \<and> sorted (map CO_ESCOLA_ideb (snd (snd (GetMerged pyfloat enem ideb))))"
  by (simp add: GetMerged_def Let_def sort_values_enem_def sort_values_ideb_def)

subsection \<open>Runs of the stage\<close>

text \<open>
  A student table of five rows, three of the state SP and two of the state RJ, out of key
  order, with a null age, a null marital status, a null school type, a total score that
  is a text and two rows that match no school; and a school table of three rows, also out
  of order. \<open>ex_pyfloat\<close> reads the one text.
\<close>

definition ex_pyfloat :: "string \<Rightarrow> fl option" where
  "ex_pyfloat s = (if s = ''612.5'' then Some (Some (1225 / 2)) else None)"

definition ex_enem :: "(cell, cell, nat, string) enem_row list" where
  "ex_enem =
    [\<lparr>NU_IDADE = Num 17, TP_ESTADO_CIVIL = Some 0, TP_ENSINO = None, SG_UF_RESIDENCIA = ''SP'',
      NU_NOTA_TOT = Num 500, Q005 = Num 4, rest = ''a'', CO_ESCOLA = Some ''35''\<rparr>,
     \<lparr>NU_IDADE = Null, TP_ESTADO_CIVIL = None, TP_ENSINO = Some 1, SG_UF_RESIDENCIA = ''SP'',
      NU_NOTA_TOT = Txt ''612.5'', Q005 = Null, rest = ''b'', CO_ESCOLA = Some ''36''\<rparr>,
     \<lparr>NU_IDADE = Num 19, TP_ESTADO_CIVIL = Some 0, TP_ENSINO = Some 1, SG_UF_RESIDENCIA = ''SP'',
      NU_NOTA_TOT = Num 480, Q005 = Num 3, rest = ''c'', CO_ESCOLA = None\<rparr>,
     \<lparr>NU_IDADE = Num 21, TP_ESTADO_CIVIL = Some 1, TP_ENSINO = Some 1, SG_UF_RESIDENCIA = ''RJ'',
      NU_NOTA_TOT = Num 700, Q005 = Num 2, rest = ''d'', CO_ESCOLA = Some ''33''\<rparr>,
     \<lparr>NU_IDADE = Num 18, TP_ESTADO_CIVIL = Some 0, TP_ENSINO = Some 1, SG_UF_RESIDENCIA = ''RJ'',
      NU_NOTA_TOT = Num 650, Q005 = Num 5, rest = ''e'', CO_ESCOLA = Some ''34''\<rparr>]"

definition ex_ideb :: "ideb_row list" where
  "ex_ideb =
    [\<lparr>CO_ESCOLA_ideb = ''36'', IN_RENDIMENTO_ideb = Some (4 / 10), NT_PADRONIZADA = None,
      IDEB = Some 4\<rparr>,
     \<lparr>CO_ESCOLA_ideb = ''35'', IN_RENDIMENTO_ideb = Some (2 / 10), NT_PADRONIZADA = Some 5,
      IDEB = None\<rparr>,
     \<lparr>CO_ESCOLA_ideb = ''33'', IN_RENDIMENTO_ideb = Some (9 / 10), NT_PADRONIZADA = Some 6,
      IDEB = Some 5\<rparr>]"

definition ex_out :: "(fl, fl, nat, string) dfmerge_row list" where
  "ex_out =
    [\<lparr>NU_IDADE = Some 21, TP_ESTADO_CIVIL = Some 1, TP_ENSINO = Some 1,
      SG_UF_RESIDENCIA = ''RJ'', NU_NOTA_TOT = Some 700, Q005 = Some 2, rest = ''d'',
      IN_RENDIMENTO = Some (9 / 10)\<rparr>,
     \<lparr>NU_IDADE = Some 18, TP_ESTADO_CIVIL = Some 0, TP_ENSINO = Some 1,
      SG_UF_RESIDENCIA = ''RJ'', NU_NOTA_TOT = Some 650, Q005 = Some 5, rest = ''e'',
      IN_RENDIMENTO = Some (9 / 10)\<rparr>,
     \<lparr>NU_IDADE = Some 17, TP_ESTADO_CIVIL = Some 0, TP_ENSINO = Some 1,
      SG_UF_RESIDENCIA = ''SP'', NU_NOTA_TOT = Some 500, Q005 = Some 4, rest = ''a'',
      IN_RENDIMENTO = Some (2 / 10)\<rparr>,
     \<lparr>NU_IDADE = Some (37 / 2), TP_ESTADO_CIVIL = Some 0, TP_ENSINO = Some 1,
      SG_UF_RESIDENCIA = ''SP'', NU_NOTA_TOT = Some (1225 / 2), Q005 = None, rest = ''b'',
      IN_RENDIMENTO = Some (4 / 10)\<rparr>,
     \<lparr>NU_IDADE = Some 19, TP_ESTADO_CIVIL = Some 0, TP_ENSINO = Some 1,
      SG_UF_RESIDENCIA = ''SP'', NU_NOTA_TOT = Some 480, Q005 = Some 3, rest = ''c'',
      IN_RENDIMENTO = Some (3 / 10)\<rparr>]"




text \<open>Claim C5, as stated, at a school table without the school of the state RJ: no row of
  that state has an index, the median of the state is null, and the stage returns a
  table, with a null index in the two rows of the state.\<close>

definition ex_ideb_SP :: "ideb_row list" where
  "ex_ideb_SP = take 2 ex_ideb"

theorem GetMerged_empty_group:
  "map IN_RENDIMENTO (filter (\<lambda>q. SG_UF_RESIDENCIA q = ''RJ'') (dfmerge_79 ex_enem ex_ideb_SP))
     = [None, None]
   \<and> fst (GetMerged ex_pyfloat ex_enem ex_ideb_SP)
     = Inr (map (\<lambda>r. if SG_UF_RESIDENCIA r = ''RJ'' then r\<lparr>IN_RENDIMENTO := None\<rparr> else r) ex_out)
   \<and> fst (GetMerged ex_pyfloat ex_enem ex_ideb_SP) \<noteq> Inl TypeError"
  by code_simp

theorem GetMerged_returns_iff_witness:
  "fst (GetMerged ex_pyfloat (map (\<lambda>e. e\<lparr>TP_ESTADO_CIVIL := None\<rparr>) ex_enem) ex_ideb)
     = Inl TypeError
   \<and> (\<exists>out. fst (GetMerged ex_pyfloat ex_enem ex_ideb_SP) = Inr out)"
proof -
  have "\<not> (\<exists>e \<in> set (map (\<lambda>e. e\<lparr>TP_ESTADO_CIVIL := None\<rparr>) ex_enem). TP_ESTADO_CIVIL e \<noteq> None)"
    by simp
  then have a: "fst (GetMerged ex_pyfloat (map (\<lambda>e. e\<lparr>TP_ESTADO_CIVIL := None\<rparr>) ex_enem) ex_ideb)
      = Inl TypeError"
    using GetMerged_returns_iff [of ex_pyfloat "map (\<lambda>e. e\<lparr>TP_ESTADO_CIVIL := None\<rparr>) ex_enem" ex_ideb]
    by blast
  have "(\<forall>e \<in> set ex_enem. to_float ex_pyfloat (NU_IDADE e) \<noteq> None
               \<and> to_float ex_pyfloat (NU_NOTA_TOT e) \<noteq> None
               \<and> to_float ex_pyfloat (Q005 e) \<noteq> None)
          \<and> (\<exists>e \<in> set ex_enem. TP_ESTADO_CIVIL e \<noteq> None)
          \<and> (\<exists>e \<in> set ex_enem. TP_ENSINO e \<noteq> None)"
    by code_simp
  then have b: "\<exists>out. fst (GetMerged ex_pyfloat ex_enem ex_ideb_SP) = Inr out"
    using GetMerged_returns_iff [of ex_pyfloat ex_enem ex_ideb_SP]
    by blast
  show ?thesis
    using a b by (rule conjI)
qed


text \<open>Claim C9, as stated, on this run: both tables of the caller come back in another
  order.\<close>

theorem GetMerged_reorders_caller_tables:
  "map CO_ESCOLA ex_enem = [Some ''35'', Some ''36'', None, Some ''33'', Some ''34'']
   \<and> map CO_ESCOLA (fst (snd (GetMerged ex_pyfloat ex_enem ex_ideb)))
       = [Some ''33'', Some ''34'', Some ''35'', Some ''36'', None]
   \<and> fst (snd (GetMerged ex_pyfloat ex_enem ex_ideb)) \<noteq> ex_enem
   \<and> map CO_ESCOLA_ideb ex_ideb = [''36'', ''35'', ''33'']
   \<and> map CO_ESCOLA_ideb (snd (snd (GetMerged ex_pyfloat ex_enem ex_ideb)))
       = [''33'', ''35'', ''36'']
   \<and> snd (snd (GetMerged ex_pyfloat ex_enem ex_ideb)) \<noteq> ex_ideb"
  by code_simp

theorem GetMerged_sorts_in_place_witness:
  "mset (fst (snd (GetMerged ex_pyfloat ex_enem ex_ideb))) = mset ex_enem
   \<and> sorted (map (\<lambda>e. na_last (CO_ESCOLA e)) (fst (snd (GetMerged ex_pyfloat ex_enem ex_ideb))))
   \<and> mset (snd (snd (GetMerged ex_pyfloat ex_enem ex_ideb))) = mset ex_ideb
   \<and> sorted (map CO_ESCOLA_ideb (snd (snd (GetMerged ex_pyfloat ex_enem ex_ideb))))"
  using GetMerged_sorts_in_place [of ex_pyfloat ex_enem ex_ideb]
  by simp

end
